theory Spec2Isabelle
  imports Main "HOL-Library.Char_ord" "HOL-Library.List_Lexorder"
begin

section \<open>Ranking databases of ctxcore (rnkdb.py)\<close>

text \<open>
  The module is an adapter over an external column store of whole genome rankings. It
  holds the thread-count setting \<open>PyArrowThreads\<close>, the abstract class
  \<open>RankingDatabase\<close> with its two variants \<open>FeatherRankingDatabase\<close> and
  \<open>MemoryDecorator\<close>, and the factory \<open>opendb\<close>.

  Python exceptions are values of the type \<open>error\<close>, and a call that may raise
  returns \<open>error + 'a\<close> with \<open>Inl\<close> for the exception. An \<open>assert\<close>
  statement is executed (the interpreter's default mode) and raises
  \<open>AssertionError\<close> with the message written in the source.
\<close>

subsection \<open>Exceptions\<close>

datatype error =
    AssertionError string
  | ValueError string
  | IndexingError string
  | StoreError string

subsection \<open>The builtin \<open>int\<close> on text\<close>

text \<open>
  The builtin \<open>int\<close> is not part of the module: \<open>PyArrowThreads\<close> below takes it
  as a parameter \<open>int_of\<close>, with \<open>None\<close> for its \<open>ValueError\<close>.

  \<open>py_int\<close> is the builtin as CPython has it on ASCII text, base ten: the white
  space of the C locale (0x09 to 0x0D and 0x20) around the number is skipped, one sign
  may precede the digits, single underscores may stand between digits, and a numeral
  of more than 640 digits is refused when it has more digits than the interpreter's
  limit \<open>max_str_digits\<close> (4300 by default since Python 3.11; 0 is no limit). On text
  with a character outside ASCII the builtin also reads Unicode digits and spaces,
  which \<open>py_int\<close> does not; it serves as the reader in the two examples of C3.
\<close>

definition is_space :: "char \<Rightarrow> bool" where
  "is_space c \<longleftrightarrow>
     c \<in> set [CHR 0x09, CHR 0x0A, CHR 0x0B, CHR 0x0C, CHR 0x0D, CHR 0x20]"

definition strip :: "string \<Rightarrow> string" where
  "strip s = rev (dropWhile is_space (rev (dropWhile is_space s)))"

definition is_digit :: "char \<Rightarrow> bool" where
  "is_digit c \<longleftrightarrow> CHR ''0'' \<le> c \<and> c \<le> CHR ''9''"

definition digit_val :: "char \<Rightarrow> nat" where
  "digit_val c = of_char c - 48"

fun py_digits :: "string \<Rightarrow> nat \<Rightarrow> nat option" where
  "py_digits [] acc = Some acc"
| "py_digits [c] acc = (if is_digit c then Some (acc * 10 + digit_val c) else None)"
| "py_digits (c # d # ds) acc =
     (if is_digit c then py_digits (d # ds) (acc * 10 + digit_val c)
      else if c = CHR ''_'' \<and> is_digit d then py_digits ds (acc * 10 + digit_val d)
      else None)"

definition too_many_digits :: "nat \<Rightarrow> string \<Rightarrow> bool" where
  "too_many_digits max_str_digits s \<longleftrightarrow>
     (let digits = length (filter is_digit s)
      in digits > 640 \<and> max_str_digits > 0 \<and> digits > max_str_digits)"

definition py_nat :: "nat \<Rightarrow> string \<Rightarrow> nat option" where
  "py_nat max_str_digits s =
     (case s of
        [] \<Rightarrow> None
      | c # cs \<Rightarrow>
          if too_many_digits max_str_digits s then None
          else if is_digit c then py_digits cs (digit_val c)
          else None)"

definition py_int :: "nat \<Rightarrow> string \<Rightarrow> int option" where
  "py_int max_str_digits s =
     (case strip s of
        [] \<Rightarrow> None
      | c # u \<Rightarrow>
          if c = CHR ''-'' then map_option (\<lambda>n. - int n) (py_nat max_str_digits u)
          else if c = CHR ''+'' then map_option int (py_nat max_str_digits u)
          else map_option int (py_nat max_str_digits (c # u)))"

subsection \<open>\<open>PyArrowThreads\<close>\<close>

text \<open>
  The class body runs once, when the module is imported. \<open>environ\<close> is
  \<open>os.environ\<close>; \<open>os.environ.get\<close> of a variable that is not set is \<open>None\<close>,
  and both \<open>None\<close> and the empty text are false in the \<open>if\<close>, so that the
  empty text is not handed to \<open>int\<close>.
\<close>

definition pyarrow_threads :: "(string \<Rightarrow> int option) \<Rightarrow> (string \<rightharpoonup> string) \<Rightarrow> int" where
  "pyarrow_threads int_of environ =
     (let pyarrow_threads = 4 in
      case environ ''PYARROW_THREADS'' of
        None \<Rightarrow> pyarrow_threads
      | Some v \<Rightarrow>
          if v = [] then pyarrow_threads
          else
            let pyarrow_threads =
                  (case int_of v of Some n \<Rightarrow> n | None \<Rightarrow> pyarrow_threads)
            in if pyarrow_threads < 1 then 1 else pyarrow_threads)"

text \<open>
  \<open>set_nbr_pyarrow_threads\<close> hands a count to \<open>pa.set_cpu_count\<close>: the argument
  when it is given and not zero, the class attribute otherwise. The value here is the
  count handed over.
\<close>

definition set_nbr_pyarrow_threads ::
  "(string \<Rightarrow> int option) \<Rightarrow> (string \<rightharpoonup> string) \<Rightarrow> int option \<Rightarrow> int" where
  "set_nbr_pyarrow_threads int_of environ nbr_threads =
     (case nbr_threads of
        None \<Rightarrow> pyarrow_threads int_of environ
      | Some n \<Rightarrow> if n \<noteq> 0 then n else pyarrow_threads int_of environ)"

subsection \<open>\<open>os.path.splitext\<close>\<close>

text \<open>
  \<open>os.path.splitext\<close> of the standard library, in its POSIX form (separator
  \<open>/\<close>, no alternative separator): the extension starts at the last dot of the last
  path component, unless that component has only dots before it. \<open>rfind\<close> is
  \<open>str.rfind\<close> for one character, \<open>-1\<close> when the character is absent.
\<close>

fun rfind :: "string \<Rightarrow> char \<Rightarrow> int" where
  "rfind [] c = -1"
| "rfind (x # xs) c =
     (let r = rfind xs c in
      if r \<ge> 0 then r + 1 else if x = c then 0 else -1)"

function splitext_loop :: "string \<Rightarrow> int \<Rightarrow> int \<Rightarrow> string \<times> string" where
  "splitext_loop p dotIndex filenameIndex =
     (if filenameIndex < dotIndex then
        if take 1 (drop (nat filenameIndex) p) \<noteq> ''.''
        then (take (nat dotIndex) p, drop (nat dotIndex) p)
        else splitext_loop p dotIndex (filenameIndex + 1)
      else (p, []))"
  by pat_completeness auto
termination
  by (relation "measure (\<lambda>(p, dotIndex, filenameIndex). nat (dotIndex - filenameIndex))") auto

definition splitext :: "string \<Rightarrow> string \<times> string" where
  "splitext p =
     (let sepIndex = rfind p CHR ''/'';
          dotIndex = rfind p CHR ''.''
      in if dotIndex > sepIndex then splitext_loop p dotIndex (sepIndex + 1)
         else (p, []))"

subsection \<open>Tables\<close>

text \<open>
  A \<open>pandas.DataFrame\<close> of rankings: the row labels (features) and, in column
  order, each gene label with its vector of ranks. \<open>columns\<close> is
  \<open>df.columns\<close>, \<open>isin\<close> is \<open>Index.isin\<close> (a mask, one truth value per
  column), and \<open>loc_columns\<close> is \<open>df.loc[:, key]\<close>, which keeps the columns
  whose entry in the key is true, in the order of the table, and raises when the key has
  another length than the column axis.
\<close>

record DataFrame =
  index :: "string list"
  series :: "(string \<times> int list) list"

definition columns :: "DataFrame \<Rightarrow> string list" where
  "columns df = map fst (series df)"

definition isin :: "string list \<Rightarrow> string list \<Rightarrow> bool list" where
  "isin labels vals = map (\<lambda>c. c \<in> set vals) labels"

definition loc_columns :: "DataFrame \<Rightarrow> bool list \<Rightarrow> error + DataFrame" where
  "loc_columns df key =
     (if length key \<noteq> length (series df) then Inl (IndexingError ''Item wrong length'')
      else Inr (df\<lparr>series := map fst (filter snd (zip (series df) key))\<rparr>))"

subsection \<open>The external collaborators\<close>

text \<open>
  Modelled from the spec: the gene signature of \<open>genesig\<close>, which is not among the
  sources. Only its \<open>genes\<close> accessor is used: a collection of gene identifiers, in
  which order and repetitions are possible.
\<close>

record GeneSignature =
  gs_genes :: "string list"

text \<open>
  Modelled from the spec: the typed identifier collection \<open>RegionOrGeneIDs\<close> of the
  external module \<open>datatypes\<close>: the identifiers \<open>ids\<close> and the tag \<open>type\<close>
  (regions or genes). \<open>RegionOrGeneIDs_init\<close> builds one from a Python set; it lists
  each identifier of the set once, here in ascending order (nothing below depends on
  which order).
\<close>

datatype regions_or_genes_type = REGIONS | GENES

record RegionOrGeneIDs =
  ids :: "string list"
  type :: regions_or_genes_type

definition RegionOrGeneIDs_init :: "string set \<Rightarrow> regions_or_genes_type \<Rightarrow> RegionOrGeneIDs" where
  "RegionOrGeneIDs_init region_or_gene_ids regions_or_genes_type =
     \<lparr>ids = sorted_list_of_set region_or_gene_ids, type = regions_or_genes_type\<rparr>"

text \<open>
  The handle \<open>CisTargetDatabase\<close> of the external module \<open>ctdb\<close> is a parameter:
  the two attributes the adapter reads and the method it calls. The method may raise;
  its exceptions pass through the adapter unchanged. The store is read-only, so the
  method is a function of its argument.
\<close>

record CisTargetDatabase =
  nbr_total_region_or_gene_ids :: int
  all_region_or_gene_ids :: RegionOrGeneIDs
  subset_to_pandas :: "RegionOrGeneIDs \<Rightarrow> error + DataFrame"

text \<open>
  The file system and the store library, as the constructors see them:
  \<open>os.path.isfile\<close>, \<open>CisTargetDatabase.init_ct_db\<close> (which may raise), and a
  log of the file names the store library was asked to open. The log is not in the
  source; it records the one effect a constructor has outside its object.
\<close>

record world =
  isfile :: "string \<Rightarrow> bool"
  init_ct_db :: "string \<Rightarrow> error + CisTargetDatabase"
  opened :: "string list"

subsection \<open>Ranking databases\<close>

text \<open>
  An object of either class: its fields, the caches of its \<open>@memoize\<close> properties
  (\<open>memoize\<close> keys its cache by \<open>self\<close>, so each object has its own entries;
  \<open>None\<close> is "not computed yet"), and two counters of the calls of \<open>load_full\<close>
  and \<open>load\<close> it has received. The counters are not in the source; they make the
  calls an object receives visible in its state.
\<close>

record memo =
  total_genes_memo :: "int option"
  genes_memo :: "string list option"
  geneset_memo :: "string set option"

record calls =
  load_full_calls :: nat
  load_calls :: nat

definition no_memo :: memo where
  "no_memo = \<lparr>total_genes_memo = None, genes_memo = None, geneset_memo = None\<rparr>"

definition no_calls :: calls where
  "no_calls = \<lparr>load_full_calls = 0, load_calls = 0\<rparr>"

datatype RankingDatabase =
    FeatherRankingDatabase
      (self_name: string) (self_fname: string) (self_ct_db: CisTargetDatabase)
      (self_memo: memo) (self_calls: calls)
  | MemoryDecorator
      (self_name: string) (self_db: RankingDatabase) (self_df: DataFrame)
      (self_memo: memo) (self_calls: calls)

text \<open>\<open>RankingDatabase.__init__\<close>: the name must be non-empty.\<close>

definition RankingDatabase_init :: "string \<Rightarrow> error + string" where
  "RankingDatabase_init nm =
     (if nm = [] then Inl (AssertionError ''Name must be specified.'') else Inr nm)"

definition name :: "RankingDatabase \<Rightarrow> string" where
  "name db = self_name db"

text \<open>
  The properties \<open>total_genes\<close> and \<open>genes\<close>. In \<open>FeatherRankingDatabase\<close> they
  are memoized reads of the store's attributes; in \<open>MemoryDecorator\<close> they call the
  property of the wrapped object, whose state may change by that. Each returns its
  value and the object after the call.
\<close>

fun total_genes :: "RankingDatabase \<Rightarrow> int \<times> RankingDatabase" where
  "total_genes (FeatherRankingDatabase n f ct m c) =
     (case total_genes_memo m of
        Some v \<Rightarrow> (v, FeatherRankingDatabase n f ct m c)
      | None \<Rightarrow>
          (let v = nbr_total_region_or_gene_ids ct
           in (v, FeatherRankingDatabase n f ct (m\<lparr>total_genes_memo := Some v\<rparr>) c)))"
| "total_genes (MemoryDecorator n db df m c) =
     (case total_genes db of (v, db') \<Rightarrow> (v, MemoryDecorator n db' df m c))"

fun genes :: "RankingDatabase \<Rightarrow> string list \<times> RankingDatabase" where
  "genes (FeatherRankingDatabase n f ct m c) =
     (case genes_memo m of
        Some v \<Rightarrow> (v, FeatherRankingDatabase n f ct m c)
      | None \<Rightarrow>
          (let v = ids (all_region_or_gene_ids ct)
           in (v, FeatherRankingDatabase n f ct (m\<lparr>genes_memo := Some v\<rparr>) c)))"
| "genes (MemoryDecorator n db df m c) =
     (case genes db of (v, db') \<Rightarrow> (v, MemoryDecorator n db' df m c))"

text \<open>
  \<open>RankingDatabase.geneset\<close>, inherited by both classes: memoized, and computed from
  \<open>self.genes\<close>.
\<close>

fun set_geneset_memo :: "RankingDatabase \<Rightarrow> string set \<Rightarrow> RankingDatabase" where
  "set_geneset_memo (FeatherRankingDatabase n f ct m c) s =
     FeatherRankingDatabase n f ct (m\<lparr>geneset_memo := Some s\<rparr>) c"
| "set_geneset_memo (MemoryDecorator n db df m c) s =
     MemoryDecorator n db df (m\<lparr>geneset_memo := Some s\<rparr>) c"

definition geneset :: "RankingDatabase \<Rightarrow> string set \<times> RankingDatabase" where
  "geneset db =
     (case geneset_memo (self_memo db) of
        Some s \<Rightarrow> (s, db)
      | None \<Rightarrow> (case genes db of (g, db') \<Rightarrow> (set g, set_geneset_memo db' (set g))))"

text \<open>\<open>load_full\<close> and \<open>load\<close>, each counting the call on the object that receives it.\<close>

definition count_load_full :: "calls \<Rightarrow> calls" where
  "count_load_full c = c\<lparr>load_full_calls := Suc (load_full_calls c)\<rparr>"

definition count_load :: "calls \<Rightarrow> calls" where
  "count_load c = c\<lparr>load_calls := Suc (load_calls c)\<rparr>"

fun load_full :: "RankingDatabase \<Rightarrow> (error + DataFrame) \<times> RankingDatabase" where
  "load_full (FeatherRankingDatabase n f ct m c) =
     (subset_to_pandas ct (all_region_or_gene_ids ct),
      FeatherRankingDatabase n f ct m (count_load_full c))"
| "load_full (MemoryDecorator n db df m c) =
     (Inr df, MemoryDecorator n db df m (count_load_full c))"

fun load :: "RankingDatabase \<Rightarrow> GeneSignature \<Rightarrow> (error + DataFrame) \<times> RankingDatabase" where
  "load (FeatherRankingDatabase n f ct m c) gs =
     (case geneset (FeatherRankingDatabase n f ct m (count_load c)) of
        (self_geneset, self') \<Rightarrow>
          (let gene_set = self_geneset \<inter> set (gs_genes gs)
           in (subset_to_pandas ct
                 (RegionOrGeneIDs_init gene_set (type (all_region_or_gene_ids ct))),
               self')))"
| "load (MemoryDecorator n db df m c) gs =
     (loc_columns df (isin (columns df) (gs_genes gs)),
      MemoryDecorator n db df m (count_load c))"

subsection \<open>Constructors\<close>

text \<open>
  \<open>FeatherRankingDatabase.__init__\<close>: the name is checked first (by the base class),
  then the file, then the store is opened. Each returns the outcome and the world after
  the call. The parameter \<open>name\<close> of the source is \<open>nm\<close> here, \<open>name\<close> being the
  property.
\<close>

definition FeatherRankingDatabase_init ::
  "world \<Rightarrow> string \<Rightarrow> string \<Rightarrow> (error + RankingDatabase) \<times> world" where
  "FeatherRankingDatabase_init w fname nm =
     (case RankingDatabase_init nm of
        Inl e \<Rightarrow> (Inl e, w)
      | Inr nm' \<Rightarrow>
          if \<not> isfile w fname
          then (Inl (AssertionError (''Database '' @ fname @ '' doesn't exist.'')), w)
          else
            (case init_ct_db w fname of
               Inl e \<Rightarrow> (Inl e, w\<lparr>opened := opened w @ [fname]\<rparr>)
             | Inr ct \<Rightarrow>
                 (Inr (FeatherRankingDatabase nm' fname ct no_memo no_calls),
                  w\<lparr>opened := opened w @ [fname]\<rparr>)))"

text \<open>
  \<open>MemoryDecorator.__init__\<close>: the argument may be \<open>None\<close>; an object of either
  class is true, since neither defines \<open>__bool__\<close> or \<open>__len__\<close>. The table is
  loaded before the base class checks the name.
\<close>

definition MemoryDecorator_init :: "RankingDatabase option \<Rightarrow> error + RankingDatabase" where
  "MemoryDecorator_init db =
     (case db of
        None \<Rightarrow> Inl (AssertionError ''Database should be supplied.'')
      | Some d \<Rightarrow>
          (case load_full d of
             (Inl e, d') \<Rightarrow> Inl e
           | (Inr df, d') \<Rightarrow>
               (case RankingDatabase_init (name d') of
                  Inl e \<Rightarrow> Inl e
                | Inr nm' \<Rightarrow> Inr (MemoryDecorator nm' d' df no_memo no_calls))))"

text \<open>\<open>opendb\<close>: the file is checked first, then the name, then the extension.\<close>

definition opendb :: "world \<Rightarrow> string \<Rightarrow> string \<Rightarrow> (error + RankingDatabase) \<times> world" where
  "opendb w fname nm =
     (if \<not> isfile w fname then (Inl (AssertionError (fname @ '' does not exist.'')), w)
      else if nm = [] then (Inl (AssertionError ''A database should be given a proper name.''), w)
      else
        (let extension = snd (splitext fname)
         in if extension = ''.feather'' then FeatherRankingDatabase_init w fname nm
            else (Inl (ValueError (extension @ '' is an unknown extension.'')), w)))"

subsection \<open>The contract of the store\<close>


definition store_subsets :: "CisTargetDatabase \<Rightarrow> bool" where
  "store_subsets ct \<longleftrightarrow>
     (\<exists>full. subset_to_pandas ct (all_region_or_gene_ids ct) = Inr full \<and>
        (\<forall>r. set (ids r) \<subseteq> set (ids (all_region_or_gene_ids ct)) \<and>
             type r = type (all_region_or_gene_ids ct) \<longrightarrow>
             (\<exists>t. subset_to_pandas ct r = Inr t \<and> set (columns t) = set (ids r) \<and>
                  index t = index full)))"

text \<open>The store an object reads in the end: its own, or that of the object it wraps.\<close>

fun store_of :: "RankingDatabase \<Rightarrow> CisTargetDatabase" where
  "store_of (FeatherRankingDatabase n f ct m c) = ct"
| "store_of (MemoryDecorator n db df m c) = store_of db"

subsection \<open>Constructed objects\<close>

text \<open>
  The states an object can be in after its constructor and any calls of its methods:
  the name is not empty, every cache entry that is filled holds the value its property
  computes, and a decorator carries the name and the full table of the object it wraps.
\<close>

definition memo_holds :: "'a option \<Rightarrow> 'a \<Rightarrow> bool" where
  "memo_holds m v = (case m of None \<Rightarrow> True | Some x \<Rightarrow> x = v)"

fun valid_db :: "RankingDatabase \<Rightarrow> bool" where
  "valid_db (FeatherRankingDatabase n f ct m c) \<longleftrightarrow>
     n \<noteq> [] \<and>
     memo_holds (total_genes_memo m) (nbr_total_region_or_gene_ids ct) \<and>
     memo_holds (genes_memo m) (ids (all_region_or_gene_ids ct)) \<and>
     memo_holds (geneset_memo m) (set (ids (all_region_or_gene_ids ct)))"
| "valid_db (MemoryDecorator n db df m c) \<longleftrightarrow>
     n \<noteq> [] \<and> valid_db db \<and> n = self_name db \<and> fst (load_full db) = Inr df \<and>
     memo_holds (geneset_memo m) (set (ids (all_region_or_gene_ids (store_of db))))"

text \<open>The calls a client can make on an object, and the object after a sequence of them.\<close>

datatype request = Name | TotalGenes | Genes | Geneset | LoadFull | Load GeneSignature

fun step :: "RankingDatabase \<Rightarrow> request \<Rightarrow> RankingDatabase" where
  "step db Name = db"
| "step db TotalGenes = snd (total_genes db)"
| "step db Genes = snd (genes db)"
| "step db Geneset = snd (geneset db)"
| "step db LoadFull = snd (load_full db)"
| "step db (Load gs) = snd (load db gs)"

definition run :: "RankingDatabase \<Rightarrow> request list \<Rightarrow> RankingDatabase" where
  "run db rs = foldl step db rs"

fun is_load :: "request \<Rightarrow> bool" where
  "is_load LoadFull = True"
| "is_load (Load gs) = True"
| "is_load r = False"

text \<open>A decorator with a given table, over an object with given counters.\<close>

fun decorates :: "DataFrame \<Rightarrow> calls \<Rightarrow> RankingDatabase \<Rightarrow> bool" where
  "decorates df k (MemoryDecorator n db df' m c) \<longleftrightarrow> df' = df \<and> self_calls db = k"
| "decorates df k (FeatherRankingDatabase n f ct m c) \<longleftrightarrow> False"

text \<open>
  What a client can observe of an object without loading: its name, its genes, its
  count of genes, and the table a decorator retains.
\<close>

fun cached_table :: "RankingDatabase \<Rightarrow> DataFrame option" where
  "cached_table (FeatherRankingDatabase n f ct m c) = None"
| "cached_table (MemoryDecorator n db df m c) = Some df"

definition observe :: "RankingDatabase \<Rightarrow> string \<times> string list \<times> int \<times> DataFrame option" where
  "observe db = (name db, fst (genes db), fst (total_genes db), cached_table db)"

subsection \<open>An example store\<close>

text \<open>
  A store that serves an in-memory table: the catalogue is the column labels of the
  table, and a request yields the columns whose label is requested. It meets the
  contract above, and the examples below run on it.
\<close>

definition table_store :: "DataFrame \<Rightarrow> regions_or_genes_type \<Rightarrow> CisTargetDatabase" where
  "table_store full ty =
     \<lparr>nbr_total_region_or_gene_ids = int (length (series full)),
      all_region_or_gene_ids = \<lparr>ids = columns full, type = ty\<rparr>,
      subset_to_pandas =
        (\<lambda>r. Inr (full\<lparr>series := filter (\<lambda>s. fst s \<in> set (ids r)) (series full)\<rparr>))\<rparr>"

definition example_table :: DataFrame where
  "example_table =
     \<lparr>index = [''motif1'', ''motif2''],
      series = [(''A'', [0, 3]), (''B'', [1, 2]), (''C'', [2, 1]), (''D'', [3, 0])]\<rparr>"

definition example_store :: CisTargetDatabase where
  "example_store = table_store example_table GENES"

definition example_db :: RankingDatabase where
  "example_db = FeatherRankingDatabase ''db'' ''db.feather'' example_store no_memo no_calls"

definition example_decorator :: RankingDatabase where
  "example_decorator =
     MemoryDecorator ''db''
       (FeatherRankingDatabase ''db'' ''db.feather'' example_store no_memo
          (count_load_full no_calls))
       example_table no_memo no_calls"

definition example_signature :: GeneSignature where
  "example_signature = \<lparr>gs_genes = [''B'', ''D'', ''D'', ''E'']\<rparr>"

definition example_world :: world where
  "example_world =
     \<lparr>isfile = (\<lambda>f. f = ''db.feather'' \<or> f = ''db.txt''),
      init_ct_db =
        (\<lambda>f. if f = ''db.feather'' then Inr example_store
             else Inl (StoreError ''not a Feather file'')),
      opened = []\<rparr>"




section \<open>Properties\<close>

subsection \<open>Constructed objects stay valid\<close>

lemma genes_value:
  "valid_db db \<Longrightarrow> fst (genes db) = ids (all_region_or_gene_ids (store_of db))"
  by (induction db) (auto simp: memo_holds_def Let_def split: option.splits prod.splits)


lemma load_full_result_genes [simp]: "fst (load_full (snd (genes db))) = fst (load_full db)"
  by (cases db) (auto simp: Let_def split: option.splits prod.splits)

lemma load_full_result_total_genes [simp]:
  "fst (load_full (snd (total_genes db))) = fst (load_full db)"
  by (cases db) (auto simp: Let_def split: option.splits prod.splits)

lemma store_of_genes [simp]: "store_of (snd (genes db)) = store_of db"
  by (induction db) (auto simp: Let_def split: option.splits prod.splits)

lemma store_of_total_genes [simp]: "store_of (snd (total_genes db)) = store_of db"
  by (induction db) (auto simp: Let_def split: option.splits prod.splits)

lemma self_name_genes [simp]: "self_name (snd (genes db)) = self_name db"
  by (cases db) (auto simp: Let_def split: option.splits prod.splits)

lemma self_name_total_genes [simp]: "self_name (snd (total_genes db)) = self_name db"
  by (cases db) (auto simp: Let_def split: option.splits prod.splits)

lemma valid_genes: "valid_db db \<Longrightarrow> valid_db (snd (genes db))"
proof (induction db)
  case (FeatherRankingDatabase n f ct m c)
  then show ?case by (auto simp: memo_holds_def Let_def split: option.splits)
next
  case (MemoryDecorator n db df m c)
  then have "valid_db (snd (genes db))" by simp
  with MemoryDecorator.prems show ?case
    using self_name_genes [of db] load_full_result_genes [of db] store_of_genes [of db]
    by (cases "genes db") auto
qed

lemma valid_total_genes: "valid_db db \<Longrightarrow> valid_db (snd (total_genes db))"
proof (induction db)
  case (FeatherRankingDatabase n f ct m c)
  then show ?case by (auto simp: memo_holds_def Let_def split: option.splits)
next
  case (MemoryDecorator n db df m c)
  then have "valid_db (snd (total_genes db))" by simp
  with MemoryDecorator.prems show ?case
    using self_name_total_genes [of db] load_full_result_total_genes [of db]
      store_of_total_genes [of db]
    by (cases "total_genes db") auto
qed

lemma geneset_value:
  "valid_db db \<Longrightarrow> fst (geneset db) = set (ids (all_region_or_gene_ids (store_of db)))"
  using genes_value [of db]
  by (cases db) (auto simp: geneset_def memo_holds_def split: option.splits prod.splits)

lemma valid_set_geneset_memo:
  "valid_db db \<Longrightarrow> s = set (ids (all_region_or_gene_ids (store_of db))) \<Longrightarrow>
   valid_db (set_geneset_memo db s)"
  by (cases db) (auto simp: memo_holds_def)

lemma valid_geneset: "valid_db db \<Longrightarrow> valid_db (snd (geneset db))"
proof (cases "geneset_memo (self_memo db)")
  case None
  assume v: "valid_db db"
  obtain g db' where g: "genes db = (g, db')" by (cases "genes db")
  have "valid_db db'" using valid_genes [OF v] g by simp
  moreover have "store_of db' = store_of db" using store_of_genes [of db] g by simp
  moreover have "g = ids (all_region_or_gene_ids (store_of db))"
    using genes_value [OF v] g by simp
  ultimately show ?thesis
    using None g by (simp add: geneset_def valid_set_geneset_memo)
next
  case (Some s)
  assume "valid_db db"
  then show ?thesis using Some by (simp add: geneset_def)
qed

lemma valid_load_full: "valid_db db \<Longrightarrow> valid_db (snd (load_full db))"
  by (cases db) auto

lemma valid_load: "valid_db db \<Longrightarrow> valid_db (snd (load db gs))"
proof (cases db)
  case (FeatherRankingDatabase n f ct m c)
  assume v: "valid_db db"
  let ?d = "FeatherRankingDatabase n f ct m (count_load c)"
  have "valid_db ?d" using v FeatherRankingDatabase by simp
  then have "valid_db (snd (geneset ?d))" by (rule valid_geneset)
  then show ?thesis
    using FeatherRankingDatabase by (auto simp: Let_def split: prod.splits)
next
  case (MemoryDecorator n d df m c)
  assume "valid_db db"
  then show ?thesis using MemoryDecorator by auto
qed

lemma valid_step: "valid_db db \<Longrightarrow> valid_db (step db r)"
  by (cases r) (simp_all add: valid_total_genes valid_genes valid_geneset valid_load_full valid_load)

lemma valid_run: "valid_db db \<Longrightarrow> valid_db (run db rs)"
  unfolding run_def by (induction rs arbitrary: db) (simp_all add: valid_step)

lemma valid_FeatherRankingDatabase_init:
  "FeatherRankingDatabase_init w fname nm = (Inr db, w') \<Longrightarrow> valid_db db"
  by (auto simp: FeatherRankingDatabase_init_def RankingDatabase_init_def no_memo_def
        memo_holds_def split: if_splits sum.splits)

lemma valid_opendb: "opendb w fname nm = (Inr db, w') \<Longrightarrow> valid_db db"
  by (auto simp: opendb_def Let_def dest: valid_FeatherRankingDatabase_init split: if_splits)

lemma store_of_load_full [simp]: "store_of (snd (load_full db)) = store_of db"
  by (cases db) auto

lemma self_name_load_full [simp]: "self_name (snd (load_full db)) = self_name db"
  by (cases db) auto

lemma load_full_result_load_full [simp]:
  "fst (load_full (snd (load_full db))) = fst (load_full db)"
  by (cases db) auto

lemma valid_MemoryDecorator_init:
  assumes "MemoryDecorator_init (Some d) = Inr M" and "valid_db d"
  shows "valid_db M"
proof -
  obtain r d' where l: "load_full d = (r, d')" by (cases "load_full d")
  have d': "valid_db d'" "store_of d' = store_of d" "self_name d' = self_name d"
    "fst (load_full d') = r"
    using valid_load_full [OF assms(2)] store_of_load_full [of d] self_name_load_full [of d]
      load_full_result_load_full [of d] l by simp_all
  show ?thesis
    using assms(1) l d'
    by (auto simp: MemoryDecorator_init_def RankingDatabase_init_def name_def no_memo_def
          memo_holds_def split: sum.splits if_splits)
qed

subsection \<open>The example store meets the contract\<close>

lemma set_columns_filter:
  "set (columns (full\<lparr>series := filter (\<lambda>s. fst s \<in> R) (series full)\<rparr>)) = set (columns full) \<inter> R"
  by (auto simp: columns_def)


lemma table_store_subsets: "store_subsets (table_store full ty)"
  unfolding store_subsets_def
  by (rule exI [of _ full]) (auto simp: table_store_def set_columns_filter columns_def)

lemma table_store_full:
  "subset_to_pandas (table_store full ty) (all_region_or_gene_ids (table_store full ty)) =
     Inr full"
  by (simp add: table_store_def columns_def)

lemma example_decorator_init: "MemoryDecorator_init (Some example_db) = Inr example_decorator"
  by (simp add: MemoryDecorator_init_def example_db_def example_decorator_def example_store_def
      table_store_full RankingDatabase_init_def name_def)

lemma valid_example_db: "valid_db example_db"
  by (simp add: example_db_def no_memo_def memo_holds_def)

lemma valid_example_decorator: "valid_db example_decorator"
  using valid_MemoryDecorator_init [OF example_decorator_init valid_example_db] .


lemma splitext_db_txt: "splitext ''db.txt'' = (''db'', ''.txt'')"
  by code_simp

subsection \<open>The thread count\<close>

lemma few_digits:
  assumes "length s \<le> 640"
  shows "\<not> too_many_digits max_str_digits s"
proof -
  have "length (filter is_digit s) \<le> 640"
    using length_filter_le [of is_digit s] assms by (rule le_trans)
  then show ?thesis by (simp add: too_many_digits_def Let_def)
qed

lemma py_int_zero: "py_int max_str_digits ''0'' = Some 0"
  by (simp add: py_int_def strip_def is_space_def py_nat_def few_digits is_digit_def
      digit_val_def)

lemma py_int_abc: "py_int max_str_digits ''abc'' = None"
  by (simp add: py_int_def strip_def is_space_def py_nat_def few_digits is_digit_def)

text \<open>
  C3. When \<open>PYARROW_THREADS\<close> is set to a text that \<open>int\<close> reads, the thread
  count is that integer, raised to 1 when it is below 1; when it is set to a text that
  \<open>int\<close> rejects (the empty text among them, which is not handed to \<open>int\<close>), the
  count is the default 4. This holds whatever \<open>int\<close> reads. With the builtin on
  ASCII text, \<open>PYARROW_THREADS=0\<close> gives 1 and \<open>PYARROW_THREADS=abc\<close> gives 4.
\<close>

theorem pyarrow_threads_resolved:
  "pyarrow_threads int_of (environ(''PYARROW_THREADS'' \<mapsto> v)) =
     (case (if v = [] then None else int_of v) of Some n \<Rightarrow> max 1 n | None \<Rightarrow> 4)
   \<and> pyarrow_threads (py_int max_str_digits) (environ(''PYARROW_THREADS'' \<mapsto> ''0'')) = 1
   \<and> pyarrow_threads (py_int max_str_digits) (environ(''PYARROW_THREADS'' \<mapsto> ''abc'')) = 4"
proof -
  have general: "pyarrow_threads f (e(''PYARROW_THREADS'' \<mapsto> w)) =
      (case (if w = [] then None else f w) of Some n \<Rightarrow> max 1 n | None \<Rightarrow> 4)" for f e w
  proof (cases "w = []")
    case True
    then show ?thesis by (simp add: pyarrow_threads_def)
  next
    case False
    then show ?thesis
      by (cases "f w") (simp_all add: pyarrow_threads_def max_def)
  qed
  show ?thesis
    using general [of int_of environ v] general [of "py_int max_str_digits" environ "''0''"]
      general [of "py_int max_str_digits" environ "''abc''"]
    by (simp add: py_int_zero py_int_abc)
qed

subsection \<open>Construction and its errors\<close>

text \<open>
  The specification's error kinds are the exceptions of the source: \<open>InvalidArgument\<close>
  is the \<open>AssertionError\<close> of a name check, \<open>NotFound\<close> the \<open>AssertionError\<close>
  of a file check, and \<open>UnsupportedFormat\<close> the \<open>ValueError\<close> of \<open>opendb\<close>.
\<close>

text \<open>
  C4. For an existing file whose extension is not \<open>.feather\<close> and a non-empty name,
  \<open>opendb\<close> raises the \<open>ValueError\<close> whose message starts with that extension, and
  the world is as before: no store was opened, and no object exists.
\<close>

theorem opendb_unknown_extension:
  "isfile w fname \<Longrightarrow> nm \<noteq> [] \<Longrightarrow> snd (splitext fname) \<noteq> ''.feather'' \<Longrightarrow>
   opendb w fname nm =
     (Inl (ValueError (snd (splitext fname) @ '' is an unknown extension.'')), w)"
  by (simp add: opendb_def Let_def)

theorem opendb_unknown_extension_witness:
  "isfile example_world ''db.txt'' \<and> ''db'' \<noteq> [] \<and> snd (splitext ''db.txt'') \<noteq> ''.feather'' \<and>
   opendb example_world ''db.txt'' ''db'' =
     (Inl (ValueError ''.txt is an unknown extension.''), example_world)"
  using opendb_unknown_extension [of example_world "''db.txt''" "''db''"]
  by (simp add: splitext_db_txt example_world_def)

text \<open>
  C5. Constructing a file-backed database with an empty name raises the error of the
  name check; with a missing file, and a name that passes its check, it raises the
  error of the file check. Both are the outcome of the constructor itself: no object is
  returned on which a later \<open>load\<close> could fail, and no store was opened.
\<close>

theorem feather_init_errors:
  "(nm = [] \<longrightarrow>
      FeatherRankingDatabase_init w fname nm =
        (Inl (AssertionError ''Name must be specified.''), w)) \<and>
   (nm \<noteq> [] \<and> \<not> isfile w fname \<longrightarrow>
      FeatherRankingDatabase_init w fname nm =
        (Inl (AssertionError (''Database '' @ fname @ '' doesn't exist.'')), w))"
  by (simp add: FeatherRankingDatabase_init_def RankingDatabase_init_def)

theorem feather_init_errors_witness:
  "FeatherRankingDatabase_init example_world ''db.feather'' [] =
     (Inl (AssertionError ''Name must be specified.''), example_world) \<and>
   ''db'' \<noteq> [] \<and> \<not> isfile example_world ''missing.feather'' \<and>
   FeatherRankingDatabase_init example_world ''missing.feather'' ''db'' =
     (Inl (AssertionError ''Database missing.feather doesn't exist.''), example_world)"
  using feather_init_errors [of "[]" example_world "''db.feather''"]
    feather_init_errors [of "''db''" example_world "''missing.feather''"]
  by (simp add: example_world_def)

text \<open>
  C9. With an empty name and a missing file, the constructor of
  \<open>FeatherRankingDatabase\<close> raises the error of the name check, which it makes first,
  and \<open>opendb\<close> raises the error of the file check, which it makes first.
\<close>

theorem construction_check_order:
  "\<not> isfile w fname \<Longrightarrow>
   FeatherRankingDatabase_init w fname [] =
     (Inl (AssertionError ''Name must be specified.''), w) \<and>
   opendb w fname [] = (Inl (AssertionError (fname @ '' does not exist.'')), w)"
  by (simp add: FeatherRankingDatabase_init_def RankingDatabase_init_def opendb_def)

theorem construction_check_order_witness:
  "\<not> isfile example_world ''missing.feather'' \<and>
   FeatherRankingDatabase_init example_world ''missing.feather'' [] =
     (Inl (AssertionError ''Name must be specified.''), example_world) \<and>
   opendb example_world ''missing.feather'' [] =
     (Inl (AssertionError ''missing.feather does not exist.''), example_world)"
  using construction_check_order [of example_world "''missing.feather''"]
  by (simp add: example_world_def)

subsection \<open>Metadata\<close>





subsection \<open>Loading from the store\<close>

lemma ids_RegionOrGeneIDs_init:
  "finite G \<Longrightarrow> set (ids (RegionOrGeneIDs_init G ty)) = G"
  by (simp add: RegionOrGeneIDs_init_def)

lemma type_RegionOrGeneIDs_init: "type (RegionOrGeneIDs_init G ty) = ty"
  by (simp add: RegionOrGeneIDs_init_def)

lemma feather_load_request:
  assumes "valid_db (FeatherRankingDatabase n f ct m c)"
  shows "fst (load (FeatherRankingDatabase n f ct m c) gs) =
     subset_to_pandas ct
       (RegionOrGeneIDs_init (set (ids (all_region_or_gene_ids ct)) \<inter> set (gs_genes gs))
          (type (all_region_or_gene_ids ct)))"
proof -
  let ?d = "FeatherRankingDatabase n f ct m (count_load c)"
  have "valid_db ?d" using assms by simp
  then have g: "fst (geneset ?d) = set (ids (all_region_or_gene_ids ct))"
    using geneset_value [of ?d] by simp
  obtain s d' where sd: "geneset ?d = (s, d')" by (cases "geneset ?d")
  with g have "s = set (ids (all_region_or_gene_ids ct))" by simp
  with sd show ?thesis by (simp add: Let_def)
qed

lemma example_geneset:
  "set (ids (all_region_or_gene_ids example_store)) = {''A'', ''B'', ''C'', ''D''}"
  by (simp add: example_store_def table_store_def columns_def example_table_def)

text \<open>
  C1. For a file-backed database over a store that meets the contract and for every
  signature, \<open>load\<close> returns a table (no error for genes the store does not have)
  whose set of gene columns is the intersection of the database's gene set with the
  genes of the signature, with the rows of the full table; and two signatures with the
  same set of genes, whatever their order and repetitions, give the same result.
\<close>

theorem feather_load_columns:
  assumes "valid_db (FeatherRankingDatabase n f ct m c)" and "store_subsets ct"
  shows "\<exists>t full.
     fst (load (FeatherRankingDatabase n f ct m c) gs) = Inr t \<and>
     fst (load_full (FeatherRankingDatabase n f ct m c)) = Inr full \<and>
     set (columns t) =
       fst (geneset (FeatherRankingDatabase n f ct m c)) \<inter> set (gs_genes gs) \<and>
     fst (geneset (FeatherRankingDatabase n f ct m c)) =
       set (fst (genes (FeatherRankingDatabase n f ct m c))) \<and>
     index t = index full \<and>
     (\<forall>gs'. set (gs_genes gs') = set (gs_genes gs) \<longrightarrow>
        fst (load (FeatherRankingDatabase n f ct m c) gs') =
        fst (load (FeatherRankingDatabase n f ct m c) gs))"
proof -
  let ?D = "FeatherRankingDatabase n f ct m c"
  let ?G = "set (ids (all_region_or_gene_ids ct)) \<inter> set (gs_genes gs)"
  let ?r = "RegionOrGeneIDs_init ?G (type (all_region_or_gene_ids ct))"
  obtain full where full: "subset_to_pandas ct (all_region_or_gene_ids ct) = Inr full"
    and sub: "\<forall>r. set (ids r) \<subseteq> set (ids (all_region_or_gene_ids ct)) \<and>
          type r = type (all_region_or_gene_ids ct) \<longrightarrow>
          (\<exists>t. subset_to_pandas ct r = Inr t \<and> set (columns t) = set (ids r) \<and>
              index t = index full)"
    using assms(2) unfolding store_subsets_def by (elim exE conjE)
  have r1: "set (ids ?r) = ?G"
    by (rule ids_RegionOrGeneIDs_init) simp
  have r2: "type ?r = type (all_region_or_gene_ids ct)"
    by (rule type_RegionOrGeneIDs_init)
  have "set (ids ?r) \<subseteq> set (ids (all_region_or_gene_ids ct))"
    unfolding r1 by (rule Int_lower1)
  with r2 sub have "\<exists>t. subset_to_pandas ct ?r = Inr t \<and> set (columns t) = set (ids ?r) \<and>
      index t = index full"
    by (elim allE [of _ ?r]) (rule mp, assumption, rule conjI)
  then obtain t where t: "subset_to_pandas ct ?r = Inr t" "set (columns t) = set (ids ?r)"
      "index t = index full"
    by (elim exE conjE)
  have gset: "fst (geneset ?D) = set (ids (all_region_or_gene_ids ct))"
    using geneset_value [OF assms(1)] by simp
  have gns: "fst (genes ?D) = ids (all_region_or_gene_ids ct)"
    using genes_value [OF assms(1)] by simp
  have l: "fst (load ?D gs) = Inr t"
    unfolding feather_load_request [OF assms(1)] by (rule t(1))
  have lf: "fst (load_full ?D) = Inr full" using full by simp
  have ind: "\<forall>gs'. set (gs_genes gs') = set (gs_genes gs) \<longrightarrow>
      fst (load ?D gs') = fst (load ?D gs)"
    unfolding feather_load_request [OF assms(1)] by simp
  have cols: "set (columns t) = fst (geneset ?D) \<inter> set (gs_genes gs)"
    unfolding t(2) r1 gset ..
  have gg: "fst (geneset ?D) = set (fst (genes ?D))"
    unfolding gset gns ..
  show ?thesis
    by (rule exI [of _ t], rule exI [of _ full]) (intro conjI l lf cols gg t(3) ind)
qed

theorem feather_load_columns_witness:
  "valid_db example_db \<and> store_subsets example_store \<and>
   (\<exists>t. fst (load example_db example_signature) = Inr t \<and>
        set (columns t) = {''B'', ''D''} \<and> index t = [''motif1'', ''motif2''] \<and>
        fst (load example_db \<lparr>gs_genes = [''E'', ''D'', ''B'']\<rparr>) = Inr t)"
proof -
  let ?D = "FeatherRankingDatabase ''db'' ''db.feather'' example_store no_memo no_calls"
  have s: "store_subsets example_store"
    by (simp add: example_store_def table_store_subsets)
  have v: "valid_db ?D"
    using valid_example_db by (simp add: example_db_def)
  have g: "fst (geneset ?D) = {''A'', ''B'', ''C'', ''D''}"
    using geneset_value [OF v] example_geneset by simp
  have f: "fst (load_full ?D) = Inr example_table"
    by (simp add: example_store_def table_store_full)
  have e: "set (gs_genes \<lparr>gs_genes = [''E'', ''D'', ''B'']\<rparr>) = set (gs_genes example_signature)"
    by (auto simp: example_signature_def)
  have i: "{''A'', ''B'', ''C'', ''D''} \<inter> set (gs_genes example_signature) = {''B'', ''D''}"
    by (auto simp: example_signature_def)
  obtain t full where t: "fst (load ?D example_signature) = Inr t"
    "fst (load_full ?D) = Inr full"
    "set (columns t) = fst (geneset ?D) \<inter> set (gs_genes example_signature)"
    "index t = index full"
    "\<forall>gs'. set (gs_genes gs') = set (gs_genes example_signature) \<longrightarrow>
        fst (load ?D gs') = fst (load ?D example_signature)"
    using feather_load_columns [OF v s, of example_signature] by (elim exE conjE)
  have "full = example_table" using t(2) f by simp
  then have ix: "index t = [''motif1'', ''motif2'']"
    using t(4) by (simp add: example_table_def)
  have c: "set (columns t) = {''B'', ''D''}"
    unfolding t(3) g i ..
  have o: "fst (load ?D \<lparr>gs_genes = [''E'', ''D'', ''B'']\<rparr>) = Inr t"
    using t(5) e t(1) by simp
  show ?thesis
    unfolding example_db_def
    by (intro conjI v s exI [of _ t] t(1) c ix o)
qed

subsection \<open>The decorator\<close>

lemma load_full_MemoryDecorator_init:
  assumes "name d \<noteq> []" and "load_full d = (r, d')"
  shows "MemoryDecorator_init (Some d) =
     (case r of Inl e \<Rightarrow> Inl e
      | Inr df \<Rightarrow> Inr (MemoryDecorator (name d) d' df no_memo no_calls))"
proof -
  have "self_name d' = self_name d"
    using self_name_load_full [of d] assms(2) by simp
  then show ?thesis
    using assms
    by (cases r) (simp_all add: MemoryDecorator_init_def RankingDatabase_init_def name_def)
qed

text \<open>
  C2. For every database with a non-empty name, file-backed ones among them:
  when \<open>load_full\<close> on it yields a table, the decorator can be built on it and
  \<open>load_full\<close> on the decorator yields that same table, labels and ranks, on the
  first call and on the next; when the store fails, building the decorator fails with
  the store's error.
\<close>

theorem load_full_decorated:
  assumes "name d \<noteq> []"
  shows "case fst (load_full d) of
     Inl e \<Rightarrow> MemoryDecorator_init (Some d) = Inl e
   | Inr t \<Rightarrow>
       (\<exists>M. MemoryDecorator_init (Some d) = Inr M \<and> fst (load_full M) = Inr t \<and>
            fst (load_full (snd (load_full M))) = Inr t)"
proof -
  obtain r d' where l: "load_full d = (r, d')" by (cases "load_full d")
  show ?thesis
    using load_full_MemoryDecorator_init [OF assms l] l
    by (cases r) simp_all
qed

theorem load_full_decorated_witness:
  "name example_db \<noteq> [] \<and> fst (load_full example_db) = Inr example_table \<and>
   (\<exists>M. MemoryDecorator_init (Some example_db) = Inr M \<and>
        fst (load_full M) = Inr example_table \<and>
        fst (load_full (snd (load_full M))) = Inr example_table)"
proof -
  have n: "name example_db \<noteq> []" by (simp add: name_def example_db_def)
  have f: "fst (load_full example_db) = Inr example_table"
    by (simp add: example_db_def example_store_def table_store_full)
  show ?thesis
    using load_full_decorated [OF n] n f by simp
qed

lemma filter_zip_isin:
  "map fst (filter snd (zip xs (map (\<lambda>x. P (fst x)) xs))) = filter (\<lambda>x. P (fst x)) xs"
  by (induction xs) simp_all

lemma loc_columns_isin:
  "loc_columns df (isin (columns df) vals) =
     Inr (df\<lparr>series := filter (\<lambda>s. fst s \<in> set vals) (series df)\<rparr>)"
  using filter_zip_isin [of "series df" "\<lambda>c. c \<in> set vals"]
  by (simp add: loc_columns_def isin_def columns_def comp_def)

lemma columns_filter:
  "columns (df\<lparr>series := filter (\<lambda>s. P (fst s)) (series df)\<rparr>) = filter P (columns df)"
  by (simp add: columns_def filter_map comp_def)

lemma load_full_columns:
  "valid_db db \<Longrightarrow> store_subsets (store_of db) \<Longrightarrow> fst (load_full db) = Inr t \<Longrightarrow>
   set (columns t) = set (ids (all_region_or_gene_ids (store_of db)))"
proof (induction db arbitrary: t)
  case (FeatherRankingDatabase n f ct m c)
  obtain full where full: "subset_to_pandas ct (all_region_or_gene_ids ct) = Inr full"
    and sub: "\<forall>r. set (ids r) \<subseteq> set (ids (all_region_or_gene_ids ct)) \<and>
          type r = type (all_region_or_gene_ids ct) \<longrightarrow>
          (\<exists>t. subset_to_pandas ct r = Inr t \<and> set (columns t) = set (ids r) \<and>
              index t = index full)"
    using FeatherRankingDatabase.prems(2) unfolding store_subsets_def store_of.simps
    by (elim exE conjE)
  have "\<exists>t. subset_to_pandas ct (all_region_or_gene_ids ct) = Inr t \<and>
      set (columns t) = set (ids (all_region_or_gene_ids ct)) \<and> index t = index full"
    using sub by (elim allE [of _ "all_region_or_gene_ids ct"]) simp
  then have "set (columns full) = set (ids (all_region_or_gene_ids ct))"
    using full by simp
  moreover have "t = full" using FeatherRankingDatabase.prems(3) full by simp
  ultimately show ?case by simp
next
  case (MemoryDecorator n db df m c)
  have "t = df" using MemoryDecorator.prems(3) by simp
  moreover have "valid_db db" "store_subsets (store_of db)" "fst (load_full db) = Inr df"
    using MemoryDecorator.prems(1,2) by simp_all
  ultimately show ?case using MemoryDecorator.IH by simp
qed

text \<open>
  C7. \<open>load\<close> on a decorator returns the retained table restricted to the columns
  whose label is among the genes of the signature, with all rows, and the columns
  keep the order they have in the retained table. The set of its columns is the
  intersection of the retained table's columns with the signature's genes, which for a
  constructed decorator over a store that meets the contract is the intersection of
  the database's genes with the signature's genes, as for the file-backed \<open>load\<close>.
\<close>

theorem memory_load_columns:
  "\<exists>t. fst (load (MemoryDecorator n db df m c) gs) = Inr t \<and>
        series t = filter (\<lambda>s. fst s \<in> set (gs_genes gs)) (series df) \<and>
        index t = index df \<and>
        columns t = filter (\<lambda>g. g \<in> set (gs_genes gs)) (columns df) \<and>
        set (columns t) = set (columns df) \<inter> set (gs_genes gs) \<and>
        (valid_db (MemoryDecorator n db df m c) \<and> store_subsets (store_of db) \<longrightarrow>
           set (columns t) = set (fst (genes (MemoryDecorator n db df m c))) \<inter> set (gs_genes gs))"
proof -
  let ?M = "MemoryDecorator n db df m c"
  let ?t = "df\<lparr>series := filter (\<lambda>s. fst s \<in> set (gs_genes gs)) (series df)\<rparr>"
  have l: "fst (load ?M gs) = Inr ?t" by (simp add: loc_columns_isin)
  have s: "series ?t = filter (\<lambda>s. fst s \<in> set (gs_genes gs)) (series df)" by simp
  have i: "index ?t = index df" by simp
  have c: "columns ?t = filter (\<lambda>g. g \<in> set (gs_genes gs)) (columns df)"
    by (rule columns_filter)
  have sc: "set (columns ?t) = set (columns df) \<inter> set (gs_genes gs)"
    unfolding c by auto
  have g: "valid_db ?M \<and> store_subsets (store_of db) \<longrightarrow>
      set (columns ?t) = set (fst (genes ?M)) \<inter> set (gs_genes gs)"
  proof
    assume a: "valid_db ?M \<and> store_subsets (store_of db)"
    then have v: "valid_db ?M" and st: "store_subsets (store_of db)" by (rule conjunct1, rule conjunct2)
    from v have "valid_db db" "fst (load_full db) = Inr df" by simp_all
    with st have "set (columns df) = set (ids (all_region_or_gene_ids (store_of db)))"
      using load_full_columns [of db df] by simp
    moreover have "fst (genes ?M) = ids (all_region_or_gene_ids (store_of ?M))"
      by (rule genes_value [OF v])
    then have "fst (genes ?M) = ids (all_region_or_gene_ids (store_of db))"
      unfolding store_of.simps .
    ultimately show "set (columns ?t) = set (fst (genes ?M)) \<inter> set (gs_genes gs)"
      unfolding sc by simp
  qed
  show ?thesis by (rule exI [of _ ?t]) (intro conjI l s i c sc g)
qed

theorem memory_load_columns_witness:
  "valid_db example_decorator \<and> store_subsets (store_of example_decorator) \<and>
   (\<exists>t. fst (load example_decorator \<lparr>gs_genes = [''E'', ''D'', ''D'', ''B'']\<rparr>) = Inr t \<and>
        columns t = [''B'', ''D''] \<and> index t = [''motif1'', ''motif2''] \<and>
        set (columns t) =
          set (fst (genes example_decorator)) \<inter> {''E'', ''D'', ''B''})"
proof -
  let ?d = "FeatherRankingDatabase ''db'' ''db.feather'' example_store no_memo
      (count_load_full no_calls)"
  let ?gs = "\<lparr>gs_genes = [''E'', ''D'', ''D'', ''B'']\<rparr>"
  have v: "valid_db (MemoryDecorator ''db'' ?d example_table no_memo no_calls)"
    using valid_example_decorator by (simp add: example_decorator_def)
  have s: "store_subsets (store_of ?d)"
    by (simp add: example_store_def table_store_subsets)
  obtain t where t: "fst (load (MemoryDecorator ''db'' ?d example_table no_memo no_calls) ?gs) = Inr t"
    "index t = index example_table"
    "columns t = filter (\<lambda>g. g \<in> set (gs_genes ?gs)) (columns example_table)"
    "valid_db (MemoryDecorator ''db'' ?d example_table no_memo no_calls) \<and>
       store_subsets (store_of ?d) \<longrightarrow>
     set (columns t) =
       set (fst (genes (MemoryDecorator ''db'' ?d example_table no_memo no_calls))) \<inter>
       set (gs_genes ?gs)"
    using memory_load_columns [of "''db''" ?d example_table no_memo no_calls ?gs]
    by (elim exE conjE)
  have c: "columns t = [''B'', ''D'']"
    unfolding t(3) by (simp add: columns_def example_table_def)
  have i: "index t = [''motif1'', ''motif2'']"
    unfolding t(2) by (simp add: example_table_def)
  have g: "set (columns t) =
      set (fst (genes (MemoryDecorator ''db'' ?d example_table no_memo no_calls))) \<inter>
      {''E'', ''D'', ''B''}"
    using t(4) v s by simp
  have s': "store_subsets (store_of (MemoryDecorator ''db'' ?d example_table no_memo no_calls))"
    using s by simp
  show ?thesis
    unfolding example_decorator_def
    by (intro conjI v s' exI [of _ t] t(1) c i g)
qed

subsection \<open>Repeated loads\<close>

lemma observe_load: "observe (snd (load db gs)) = observe db"
proof (cases db)
  case (FeatherRankingDatabase n f ct m c)
  show ?thesis
    unfolding FeatherRankingDatabase
    by (cases "geneset_memo m"; cases "genes_memo m"; cases "total_genes_memo m")
      (simp_all add: observe_def name_def geneset_def Let_def)
next
  case (MemoryDecorator n d df m c)
  show ?thesis
    unfolding MemoryDecorator by (simp add: observe_def name_def split: prod.splits)
qed

lemma load_result_load: "fst (load (snd (load db gs)) gs') = fst (load db gs')"
proof (cases db)
  case (FeatherRankingDatabase n f ct m c)
  show ?thesis
    unfolding FeatherRankingDatabase
    by (cases "geneset_memo m"; cases "genes_memo m")
      (simp_all add: geneset_def Let_def)
next
  case (MemoryDecorator n d df m c)
  show ?thesis
    unfolding MemoryDecorator by simp
qed

text \<open>
  C8. For every database and signature, a second \<open>load\<close> returns what the first
  returned, and what can be observed of the object (name, genes, count of genes,
  retained table) is the same before the first call, between the calls and after the
  second.
\<close>

theorem load_twice:
  "fst (load (snd (load db gs)) gs) = fst (load db gs) \<and>
   observe (snd (load db gs)) = observe db \<and>
   observe (snd (load (snd (load db gs)) gs)) = observe db"
  by (simp add: load_result_load observe_load)

subsection \<open>Calls on the wrapped object\<close>

lemma self_calls_genes [simp]: "self_calls (snd (genes db)) = self_calls db"
  by (cases db) (auto simp: Let_def split: option.splits prod.splits)

lemma self_calls_total_genes [simp]: "self_calls (snd (total_genes db)) = self_calls db"
  by (cases db) (auto simp: Let_def split: option.splits prod.splits)

lemma genes_MemoryDecorator:
  "genes (MemoryDecorator n db df m c) =
     (fst (genes db), MemoryDecorator n (snd (genes db)) df m c)"
  by (simp split: prod.splits)

lemma total_genes_MemoryDecorator:
  "total_genes (MemoryDecorator n db df m c) =
     (fst (total_genes db), MemoryDecorator n (snd (total_genes db)) df m c)"
  by (simp split: prod.splits)

lemma decorates_genes: "decorates df k M \<Longrightarrow> decorates df k (snd (genes M))"
  by (cases M) (simp_all add: genes_MemoryDecorator del: genes.simps)

lemma decorates_total_genes: "decorates df k M \<Longrightarrow> decorates df k (snd (total_genes M))"
  by (cases M) (simp_all add: total_genes_MemoryDecorator del: total_genes.simps)

lemma decorates_set_geneset_memo:
  "decorates df k M \<Longrightarrow> decorates df k (set_geneset_memo M s)"
  by (cases M) simp_all

lemma decorates_geneset: "decorates df k M \<Longrightarrow> decorates df k (snd (geneset M))"
  by (cases "geneset_memo (self_memo M)")
    (simp_all add: geneset_def decorates_set_geneset_memo decorates_genes split: prod.splits,
     metis decorates_genes decorates_set_geneset_memo snd_conv)

lemma decorates_load_full: "decorates df k M \<Longrightarrow> decorates df k (snd (load_full M))"
  by (cases M) simp_all

lemma decorates_load: "decorates df k M \<Longrightarrow> decorates df k (snd (load M gs))"
  by (cases M) simp_all

lemma decorates_step: "decorates df k M \<Longrightarrow> decorates df k (step M r)"
  by (cases r)
    (simp_all add: decorates_total_genes decorates_genes decorates_geneset decorates_load_full
      decorates_load)

lemma decorates_run: "decorates df k M \<Longrightarrow> decorates df k (run M rs)"
  unfolding run_def by (induction rs arbitrary: M) (simp_all add: decorates_step)

lemma decorates_fields:
  "decorates df k M \<Longrightarrow>
   self_df M = df \<and> self_calls (self_db M) = k \<and> fst (load_full M) = Inr df"
  by (cases M) simp_all

lemma self_db_load_step:
  "is_load r \<Longrightarrow> decorates df k M \<Longrightarrow> self_db (step M r) = self_db M"
  by (cases r; cases M) simp_all

lemma self_db_load_run:
  "list_all is_load rs \<Longrightarrow> decorates df k M \<Longrightarrow> self_db (run M rs) = self_db M"
  unfolding run_def
proof (induction rs arbitrary: M)
  case Nil
  then show ?case by simp
next
  case (Cons r rs)
  then have "self_db (foldl step (step M r) rs) = self_db (step M r)"
    using decorates_step [of df k M r] by simp
  then show ?case
    using Cons.prems self_db_load_step [of r df k M] by simp
qed

lemma self_calls_load_full:
  "self_calls (snd (load_full db)) = count_load_full (self_calls db)"
  by (cases db) simp_all

lemma MemoryDecorator_init_Inr:
  assumes "MemoryDecorator_init (Some d) = Inr M"
  shows "\<exists>df. fst (load_full d) = Inr df \<and>
     M = MemoryDecorator (name (snd (load_full d))) (snd (load_full d)) df no_memo no_calls"
  using assms
  by (cases "load_full d")
    (auto simp: MemoryDecorator_init_def RankingDatabase_init_def
      split: sum.splits if_splits)

text \<open>
  C10. Building a decorator calls \<open>load_full\<close> of the wrapped object once and its
  \<open>load\<close> not at all, and retains the table of that call. After any sequence of
  calls on the decorator, the wrapped object has received no further call of
  \<open>load_full\<close> or \<open>load\<close>, the retained table is the same, and \<open>load_full\<close>
  returns it; after a sequence of loads alone, the wrapped object is untouched.
\<close>

theorem decorator_loads_once:
  assumes "MemoryDecorator_init (Some d) = Inr M"
  shows "load_full_calls (self_calls (self_db M)) = Suc (load_full_calls (self_calls d)) \<and>
     load_calls (self_calls (self_db M)) = load_calls (self_calls d) \<and>
     fst (load_full d) = Inr (self_df M) \<and>
     (\<forall>rs. self_calls (self_db (run M rs)) = self_calls (self_db M) \<and>
           self_df (run M rs) = self_df M \<and>
           fst (load_full (run M rs)) = Inr (self_df M)) \<and>
     (\<forall>rs. list_all is_load rs \<longrightarrow> self_db (run M rs) = self_db M)"
proof -
  obtain df where df: "fst (load_full d) = Inr df"
    and M: "M = MemoryDecorator (name (snd (load_full d))) (snd (load_full d)) df no_memo no_calls"
    using MemoryDecorator_init_Inr [OF assms] by (elim exE conjE)
  let ?k = "count_load_full (self_calls d)"
  have k: "self_calls (self_db M) = ?k" unfolding M by (simp add: self_calls_load_full)
  have sdf: "self_df M = df" unfolding M by simp
  have dec: "decorates df ?k M" unfolding M by (simp add: self_calls_load_full)
  have a: "load_full_calls (self_calls (self_db M)) = Suc (load_full_calls (self_calls d))"
    unfolding k by (simp add: count_load_full_def)
  have b: "load_calls (self_calls (self_db M)) = load_calls (self_calls d)"
    unfolding k by (simp add: count_load_full_def)
  have c: "fst (load_full d) = Inr (self_df M)" unfolding sdf by (rule df)
  have e: "\<forall>rs. self_calls (self_db (run M rs)) = self_calls (self_db M) \<and>
      self_df (run M rs) = self_df M \<and> fst (load_full (run M rs)) = Inr (self_df M)"
  proof
    fix rs
    show "self_calls (self_db (run M rs)) = self_calls (self_db M) \<and>
      self_df (run M rs) = self_df M \<and> fst (load_full (run M rs)) = Inr (self_df M)"
      using decorates_fields [OF decorates_run [OF dec, of rs]] unfolding k sdf by simp
  qed
  have f: "\<forall>rs. list_all is_load rs \<longrightarrow> self_db (run M rs) = self_db M"
    using self_db_load_run [OF _ dec] by blast
  show ?thesis by (intro conjI a b c e f)
qed

theorem decorator_loads_once_witness:
  "MemoryDecorator_init (Some example_db) = Inr example_decorator \<and>
   load_full_calls (self_calls example_db) = 0 \<and>
   load_full_calls (self_calls (self_db example_decorator)) = 1 \<and>
   load_full_calls (self_calls (self_db
     (run example_decorator [LoadFull, Load example_signature, Genes, LoadFull]))) = 1 \<and>
   load_calls (self_calls (self_db
     (run example_decorator [LoadFull, Load example_signature, Genes, LoadFull]))) = 0 \<and>
   fst (load_full (run example_decorator [LoadFull, Load example_signature, Genes, LoadFull])) =
     Inr example_table \<and>
   self_db (run example_decorator [LoadFull, Load example_signature, LoadFull]) =
     self_db example_decorator"
proof -
  note w = decorator_loads_once [OF example_decorator_init]
  have z: "load_full_calls (self_calls example_db) = 0" "load_calls (self_calls example_db) = 0"
    by (simp_all add: example_db_def no_calls_def)
  have t: "self_df example_decorator = example_table" by (simp add: example_decorator_def)
  have l: "list_all is_load [LoadFull, Load example_signature, LoadFull]" by simp
  have w1: "load_full_calls (self_calls (self_db example_decorator)) =
      Suc (load_full_calls (self_calls example_db))"
    and w2: "load_calls (self_calls (self_db example_decorator)) =
      load_calls (self_calls example_db)"
    and w4: "\<forall>rs. self_calls (self_db (run example_decorator rs)) =
        self_calls (self_db example_decorator) \<and>
      self_df (run example_decorator rs) = self_df example_decorator \<and>
      fst (load_full (run example_decorator rs)) = Inr (self_df example_decorator)"
    and w5: "\<forall>rs. list_all is_load rs \<longrightarrow>
      self_db (run example_decorator rs) = self_db example_decorator"
    using w by simp_all
  show ?thesis
    using example_decorator_init z w1 w2
      w4 [THEN spec, of "[LoadFull, Load example_signature, Genes, LoadFull]"]
      w5 [THEN spec, of "[LoadFull, Load example_signature, LoadFull]"] l t
    by simp
qed

end
